theory Spec2Isabelle
  imports Main "HOL-Library.Sublist" "HOL-Library.Char_ord" "HOL-Library.List_Lexorder"
begin

section \<open>Strings and paths\<close>





text \<open>\<open>sep.join(xs)\<close> and \<open>s.split(c)\<close> for a single separator character.\<close>

fun join_str :: "string \<Rightarrow> string list \<Rightarrow> string" where
  "join_str sep [] = []"
| "join_str sep [x] = x"
| "join_str sep (x # y # ys) = x @ sep @ join_str sep (y # ys)"

primrec split_on :: "char \<Rightarrow> string \<Rightarrow> string list" where
  "split_on c [] = [[]]"
| "split_on c (x # xs) =
     (if x = c then [] # split_on c xs
      else (case split_on c xs of
              [] \<Rightarrow> [[x]]
            | w # ws \<Rightarrow> (x # w) # ws))"

text \<open>
  \<open>pathlib.PurePosixPath\<close>: a root (empty, one slash, or exactly two slashes) and the list
  of components. Parsing drops empty components and \<open>.\<close>; \<open>..\<close> is kept.
\<close>

datatype path = Path (root: string) (parts: "string list")

definition root_of :: "string \<Rightarrow> string" where
  "root_of s =
     (if take 2 s = ''//'' \<and> take 3 s \<noteq> ''///'' then ''//''
      else if take 1 s = ''/'' then ''/''
      else [])"

definition parse_parts :: "string \<Rightarrow> string list" where
  "parse_parts s = filter (\<lambda>p. p \<noteq> [] \<and> p \<noteq> ''.'') (split_on CHR ''/'' s)"

definition path_of_str :: "string \<Rightarrow> path" where
  "path_of_str s = Path (root_of s) (parse_parts s)"

text \<open>\<open>p / s\<close>: an absolute right operand replaces the left one.\<close>

definition joinpath :: "path \<Rightarrow> string \<Rightarrow> path" where
  "joinpath p s =
     (if root_of s \<noteq> [] then path_of_str s
      else Path (root p) (parts p @ parse_parts s))"

definition str_path :: "path \<Rightarrow> string" where
  "str_path p =
     (if root p = [] \<and> parts p = [] then ''.''
      else root p @ join_str ''/'' (parts p))"


section \<open>External processes\<close>

text \<open>
  \<open>subprocess.run\<close>. The outside world is a parameter \<open>tool\<close>: given the world so far and
  a command it returns the exit status of the command and the files it leaves behind.
  The world records the files and every command that was run with its exit status,
  oldest first. With \<open>check=True\<close> a non-zero status raises \<open>CalledProcessError\<close>.
\<close>

datatype command = Argv "string list" | Shell string

datatype file_content = Json_object "(string \<times> string) list" | Not_json

datatype error =
    CalledProcessError int command
  | Exception string
  | KeyError string
  | JSONDecodeError
  | RuntimeError
  | OtherError

record world =
  files :: "path \<rightharpoonup> file_content"
  calls :: "(command \<times> int) list"

type_synonym tool = "world \<Rightarrow> command \<Rightarrow> int \<times> (path \<rightharpoonup> file_content)"

definition subprocess_run :: "tool \<Rightarrow> command \<Rightarrow> bool \<Rightarrow> world \<Rightarrow> (error + int) \<times> world" where
  "subprocess_run t cmd check w =
     (let (rc, fs) = t w cmd;
          w' = \<lparr>files = fs, calls = calls w @ [(cmd, rc)]\<rparr>
      in (if check \<and> rc \<noteq> 0 then Inl (CalledProcessError rc cmd) else Inr rc, w'))"

section \<open>The staged fit driver (analysis_on_surface.do_basil): definitions\<close>
















definition fails_at :: "nat \<Rightarrow> tool" where
  "fails_at n w cmd = (if length (calls w) = n then 1 else 0, files w)"

definition empty_world :: world where
  "empty_world = \<lparr>files = Map.empty, calls = []\<rparr>"

section \<open>The ledger (m0_mt_correction.load_json, update_json): definitions\<close>

text \<open>
  A Python \<open>dict\<close> from strings to strings, as the list of its items in insertion order;
  the keys of a dict are distinct. Assigning to a key that is present replaces its value
  in place, assigning to a new key appends an item. \<open>old.update(new)\<close> assigns the items
  of \<open>new\<close> one after the other.
\<close>

type_synonym dict = "(string \<times> string) list"

primrec dict_set :: "dict \<Rightarrow> string \<Rightarrow> string \<Rightarrow> dict" where
  "dict_set [] k v = [(k, v)]"
| "dict_set (item # d) k v = (if fst item = k then (k, v) # d else item # dict_set d k v)"

definition dict_update :: "dict \<Rightarrow> dict \<Rightarrow> dict" where
  "dict_update old new = foldl (\<lambda>d (k, v). dict_set d k v) old new"

definition dict_getitem :: "dict \<Rightarrow> string \<Rightarrow> error + string" where
  "dict_getitem d k = (case map_of d k of None \<Rightarrow> Inl (KeyError k) | Some v \<Rightarrow> Inr v)"

text \<open>
  \<open>json.dump(d, fp, sort_keys=True, indent=4)\<close> and \<open>json.load\<close>. The text of the file is
  kept as the JSON object it spells: its members in the order in which they are written.
  Dumping writes the items sorted by key; loading builds a dict by assigning the members
  in order, so that of two members with one key the later one is kept. A file that does
  not hold JSON makes \<open>json.load\<close> raise; files that hold JSON other than an object of
  strings are not modelled. The file system of the model accepts every write.
\<close>

definition json_dump :: "dict \<Rightarrow> file_content" where
  "json_dump d = Json_object (sort_key fst d)"

definition json_load :: "file_content \<Rightarrow> error + dict" where
  "json_load c = (case c of Json_object members \<Rightarrow> Inr (dict_update [] members) | Not_json \<Rightarrow> Inl JSONDecodeError)"

definition load_json :: "path \<Rightarrow> world \<Rightarrow> (error + dict) \<times> world" where
  "load_json subject_dir w =
     (let json_name = joinpath subject_dir ''ASL/ASL.json''
      in case files w json_name of
           Some c \<Rightarrow> (json_load c, w)
         | None \<Rightarrow>
             (Inl (Exception (''File '' @ str_path json_name @ '' does not exist.'' @
                              ''Please run initial_processing() first.'')), w))"

text \<open>
  \<open>update_json\<close> mutates \<open>old_dict\<close>; the model returns the dict after the call next to the
  result. The merge comes first, so a missing \<open>json_name\<close> raises \<open>KeyError\<close> after the
  dict has been merged and before anything is written.
\<close>

definition update_json :: "dict \<Rightarrow> dict \<Rightarrow> world \<Rightarrow> (error + unit) \<times> dict \<times> world" where
  "update_json new_dict old_dict w =
     (let old_dict' = dict_update old_dict new_dict
      in case dict_getitem old_dict' ''json_name'' of
           Inl e \<Rightarrow> (Inl e, old_dict', w)
         | Inr name \<Rightarrow>
             (Inr (), old_dict',
              w\<lparr>files := (files w)(path_of_str name \<mapsto> json_dump old_dict')\<rparr>))"




text \<open>A ledger as the initialisation leaves it, and a world that holds its file.\<close>

definition ledger0 :: dict where
  "ledger0 = [(''json_name'', ''/s/ASL/ASL.json''), (''structasl'', ''/s/T1w/ASL'')]"

definition world0 :: world where
  "world0 = \<lparr>files = [path_of_str ''/s/ASL/ASL.json'' \<mapsto> json_dump ledger0], calls = []\<rparr>"

section \<open>Importing the registration matrix (m0_mt_correction.generate_asl2struct): definitions\<close>

text \<open>
  The function runs \<open>bbregister\<close> through the shell without \<open>check\<close>, imports the matrix
  file \<open>asl2struct.mat\<close> that it leaves in the registration directory, and overwrites
  the file with the matrix retargeted to the structural image. The library calls are
  parameters of the model: \<open>from_flirt\<close> is \<open>Registration.from_flirt\<close> on the content of
  the matrix file, which raises \<open>RuntimeError\<close> when the matrix fails its validation;
  \<open>round_5dp\<close> is what \<open>np.savetxt(..., fmt='%.5f')\<close> writes for the matrix that
  \<open>np.loadtxt\<close> read; \<open>to_flirt\<close> is \<open>Registration.to_flirt\<close>; \<open>bbregister_out\<close> is the
  content of the matrix file when \<open>bbregister\<close> has ended, if there is one. The state
  keeps the content of the matrix file and records every import and every write of
  it, oldest first. Importing a file that does not exist raises an error other than
  \<open>RuntimeError\<close>. The working directory, the environment and the \<open>print\<close> calls are not
  modelled.
\<close>

datatype 'm flirt_event =
    From_flirt "'m option"
  | Round_savetxt 'm
  | Final_savetxt 'm

record 'm mat_state =
  omat :: "'m option"
  events :: "'m flirt_event list"

definition from_flirt_file :: "('m \<Rightarrow> error + 'r) \<Rightarrow> 'm mat_state \<Rightarrow> (error + 'r) \<times> 'm mat_state" where
  "from_flirt_file from_flirt st =
     (let st' = st\<lparr>events := events st @ [From_flirt (omat st)]\<rparr>
      in case omat st of
           None \<Rightarrow> (Inl OtherError, st')
         | Some m \<Rightarrow> (from_flirt m, st'))"

text \<open>The statements after the \<open>try\<close>: retarget the registration and save it.\<close>

definition save_asl2struct :: "('r \<Rightarrow> 'm) \<Rightarrow> 'r \<Rightarrow> 'm mat_state \<Rightarrow> (error + unit) \<times> 'm mat_state" where
  "save_asl2struct to_flirt asl2orig_fsl st =
     (let asl2struct_fsl = to_flirt asl2orig_fsl
      in (Inr (), st\<lparr>omat := Some asl2struct_fsl,
                      events := events st @ [Final_savetxt asl2struct_fsl]\<rparr>))"

definition generate_asl2struct ::
  "('m \<Rightarrow> error + 'r) \<Rightarrow> ('m \<Rightarrow> 'm) \<Rightarrow> ('r \<Rightarrow> 'm) \<Rightarrow> 'm option \<Rightarrow> (error + unit) \<times> 'm mat_state" where
  "generate_asl2struct from_flirt round_5dp to_flirt bbregister_out =
     (let st0 = \<lparr>omat = bbregister_out, events = []\<rparr>
      in case from_flirt_file from_flirt st0 of
           (Inr asl2orig_fsl, st1) \<Rightarrow> save_asl2struct to_flirt asl2orig_fsl st1
         | (Inl e, st1) \<Rightarrow>
             if e = RuntimeError then
               (case omat st1 of
                  None \<Rightarrow> (Inl OtherError, st1)
                | Some arr \<Rightarrow>
                    (let st2 = st1\<lparr>omat := Some (round_5dp arr),
                                   events := events st1 @ [Round_savetxt (round_5dp arr)]\<rparr>
                     in case from_flirt_file from_flirt st2 of
                          (Inr asl2orig_fsl, st3) \<Rightarrow> save_asl2struct to_flirt asl2orig_fsl st3
                        | (Inl e', st3) \<Rightarrow> (Inl e', st3)))
             else (Inl e, st1))"

definition is_From_flirt :: "'m flirt_event \<Rightarrow> bool" where
  "is_From_flirt ev = (case ev of From_flirt _ \<Rightarrow> True | _ \<Rightarrow> False)"

definition is_Round_savetxt :: "'m flirt_event \<Rightarrow> bool" where
  "is_Round_savetxt ev = (case ev of Round_savetxt _ \<Rightarrow> True | _ \<Rightarrow> False)"

text \<open>
  An instance for the examples: matrices with entries in millionths, a validation of
  the last row against \<open>[0, 0, 0, 1]\<close>, rounding of every entry to a multiple of ten
  millionths, and a retargeting that leaves the matrix as it is.
\<close>

definition example_from_flirt :: "int list list \<Rightarrow> error + int list list" where
  "example_from_flirt m = (if length m = 4 \<and> last m = [0, 0, 0, 1000000] then Inr m else Inl RuntimeError)"

definition example_round_5dp :: "int list list \<Rightarrow> int list list" where
  "example_round_5dp m = map (map (\<lambda>x. 10 * ((x + 5) div 10))) m"

definition near_identity :: "int list list" where
  "near_identity =
     [[1000000, 0, 0, 2500000],
      [0, 1000000, 0, - 1250000],
      [0, 0, 1000000, 0],
      [0, 0, 0, 1000003]]"

definition not_affine :: "int list list" where
  "not_affine =
     [[1000000, 0, 0, 0],
      [0, 1000000, 0, 0],
      [0, 0, 1000000, 0],
      [0, 0, 500000, 1000000]]"

section \<open>Perfusion estimation (asl_perfusion.run_oxford_asl): definitions\<close>

text \<open>
  The variable \<open>ext\<close> is a string or \<open>None\<close>; an f-string renders \<open>None\<close> as the four
  characters \<open>None\<close>.
\<close>

definition nobc_ext :: "bool \<Rightarrow> string option" where
  "nobc_ext nobc = (if nobc then Some ''_nobc'' else None)"

definition format_ext :: "string option \<Rightarrow> string" where
  "format_ext ext = (case ext of None \<Rightarrow> ''None'' | Some s \<Rightarrow> s)"

record oxford_names =
  oxford_dir :: path
  pvgm_name :: path
  pvwm_name :: path
  calib_name :: path
  brain_mask :: path

definition oxford_names_of :: "path \<Rightarrow> string option \<Rightarrow> oxford_names" where
  "oxford_names_of structasl_dir ext =
     \<lparr>oxford_dir = joinpath structasl_dir (''TIs'' @ format_ext ext @ ''/OxfordASL''),
      pvgm_name = joinpath structasl_dir (''PVEs'' @ format_ext ext @ ''/pve_GM.nii.gz''),
      pvwm_name = joinpath structasl_dir (''PVEs'' @ format_ext ext @ ''/pve_WM.nii.gz''),
      calib_name = joinpath structasl_dir
        (''Calib/Calib0/DistCorr'' @ format_ext ext @ ''/calib0_dcorr.nii.gz''),
      brain_mask = joinpath structasl_dir
        (''reg'' @ format_ext ext @ ''/ASL_grid_T1w_acpc_dc_restore_brain_mask.nii.gz'')\<rparr>"

text \<open>
  The argument list \<open>cmd\<close>. Its three ledger lookups are made in the order in which the
  list literal evaluates them; a missing key raises \<open>KeyError\<close>.
\<close>

definition oxford_cmd :: "dict \<Rightarrow> oxford_names \<Rightarrow> error + string list" where
  "oxford_cmd json_dict names =
     (case dict_getitem json_dict ''beta_perf'' of
        Inl e \<Rightarrow> Inl e
      | Inr beta_perf \<Rightarrow>
     (case dict_getitem json_dict ''T1w_acpc'' of
        Inl e \<Rightarrow> Inl e
      | Inr t1w_acpc \<Rightarrow>
     (case dict_getitem json_dict ''T1w_acpc_brain'' of
        Inl e \<Rightarrow> Inl e
      | Inr t1w_acpc_brain \<Rightarrow>
          Inr [''oxford_asl'',
               ''-i '' @ beta_perf,
               ''-o '' @ str_path (oxford_dir names),
               ''--casl'',
               ''--ibf=tis'',
               ''--iaf=diff'',
               ''--tis=1.7,2.2,2.7,3.2,3.7'',
               ''--rpts=6,6,6,10,15'',
               ''--fixbolus'',
               ''--bolus=1.5'',
               ''--pvcorr'',
               ''-c '' @ str_path (calib_name names),
               ''--cmethod=single'',
               ''-m '' @ str_path (brain_mask names),
               ''--pvgm='' @ str_path (pvgm_name names),
               ''--pvwm='' @ str_path (pvwm_name names),
               ''--te=19'',
               ''--debug'',
               ''--spatial=off'',
               ''--slicedt=0.059'',
               ''-s '' @ t1w_acpc,
               ''--sbrain='' @ t1w_acpc_brain,
               ''--sliceband=10''])))"

text \<open>
  \<open>run_oxford_asl\<close>: the command is run through the shell without \<open>check\<close>, so its exit
  status is ignored, and the ledger is then updated with the results directory. The
  \<open>print\<close> of the command is not modelled.
\<close>

definition run_oxford_asl :: "tool \<Rightarrow> path \<Rightarrow> bool \<Rightarrow> world \<Rightarrow> (error + unit) \<times> world" where
  "run_oxford_asl t subject_dir nobc w =
     (case load_json subject_dir w of
        (Inl e, w0) \<Rightarrow> (Inl e, w0)
      | (Inr json_dict, w0) \<Rightarrow>
          (let ext = nobc_ext nobc
           in case dict_getitem json_dict ''structasl'' of
                Inl e \<Rightarrow> (Inl e, w0)
              | Inr structasl \<Rightarrow>
                  (let names = oxford_names_of (path_of_str structasl) ext
                   in case oxford_cmd json_dict names of
                        Inl e \<Rightarrow> (Inl e, w0)
                      | Inr cmd \<Rightarrow>
                          (case subprocess_run t (Shell (join_str '' '' cmd)) False w0 of
                             (Inl e, w1) \<Rightarrow> (Inl e, w1)
                           | (Inr _, w1) \<Rightarrow>
                               (case update_json [(''oxford_asl'', str_path (oxford_dir names))] json_dict w1 of
                                  (r, _, w2) \<Rightarrow> (r, w2))))))"

text \<open>A ledger with the entries that \<open>run_oxford_asl\<close> reads, and a world holding it.\<close>

definition ledger1 :: dict where
  "ledger1 =
     [(''T1w_acpc'', ''/s/T1w/T1w_acpc_dc_restore.nii.gz''),
      (''T1w_acpc_brain'', ''/s/T1w/T1w_acpc_dc_restore_brain.nii.gz''),
      (''beta_perf'', ''/s/T1w/ASL/TIs/Betas/beta_perf.nii.gz''),
      (''json_name'', ''/s/ASL/ASL.json''),
      (''structasl'', ''/s/T1w/ASL'')]"

definition world1 :: world where
  "world1 = \<lparr>files = [path_of_str ''/s/ASL/ASL.json'' \<mapsto> json_dump ledger1], calls = []\<rparr>"

section \<open>Re-entrancy of the stages (distcorr_warps.main, prepare_t1asl_space.main): definitions\<close>





subsection \<open>distcorr_warps.main\<close>

































subsection \<open>prepare_t1asl_space.main\<close>














section \<open>The staged fit driver: helper lemmas\<close>









lemma joinpath_plain:
  "root_of s = [] \<Longrightarrow> parse_parts s = ps \<Longrightarrow> joinpath p s = Path (root p) (parts p @ ps)"
  by (simp add: joinpath_def)




































section \<open>The ledger: helper lemmas\<close>

lemma map_of_dict_set: "map_of (dict_set d k v) = (map_of d)(k \<mapsto> v)"
  by (induction d) (auto simp: fun_eq_iff)



lemma dict_update_Nil: "dict_update d [] = d"
  by (simp add: dict_update_def)

lemma dict_update_Cons: "dict_update d ((k, v) # new) = dict_update (dict_set d k v) new"
  by (simp add: dict_update_def)

lemma map_of_dict_update: "map_of (dict_update old new) = map_of old ++ map_of (rev new)"
proof (induction new arbitrary: old)
  case Nil
  then show ?case by (simp add: dict_update_Nil)
next
  case (Cons item new)
  obtain k v where item: "item = (k, v)" by (cases item)
  have "map_of (dict_update old (item # new)) = map_of (dict_set old k v) ++ map_of (rev new)"
    using Cons.IH [of "dict_set old k v"] item by (simp add: dict_update_Cons)
  also have "\<dots> = map_of old ++ map_of (rev (item # new))"
    by (simp add: map_of_dict_set item fun_eq_iff map_add_def split: option.splits)
  finally show ?case .
qed


lemma dict_set_fresh: "k \<notin> fst ` set d \<Longrightarrow> dict_set d k v = d @ [(k, v)]"
  by (induction d) auto

lemma dict_update_fresh:
  "distinct (map fst (acc @ xs)) \<Longrightarrow> dict_update acc xs = acc @ xs"
proof (induction xs arbitrary: acc)
  case Nil
  then show ?case by (simp add: dict_update_Nil)
next
  case (Cons item xs)
  obtain k v where item: "item = (k, v)" by (cases item)
  from Cons.prems item have fresh: "k \<notin> fst ` set acc" by auto
  from Cons.prems item have "distinct (map fst ((acc @ [(k, v)]) @ xs))" by auto
  from Cons.IH [OF this] fresh item show ?case
    by (simp add: dict_update_Cons dict_set_fresh)
qed

lemma distinct_sort_key_fst:
  "distinct (map fst d) \<Longrightarrow> distinct (map fst (sort_key fst d))"
  by (simp add: distinct_map)

lemma map_of_sort_key_fst:
  assumes "distinct (map fst d)"
  shows "map_of (sort_key fst d) = map_of d"
proof -
  have "set (sort_key fst d) = set d" by simp
  with map_of_inject_set [OF distinct_sort_key_fst [OF assms] assms] show ?thesis by simp
qed

lemma json_load_dump:
  "distinct (map fst d) \<Longrightarrow> json_load (json_dump d) = Inr (sort_key fst d)"
  using dict_update_fresh [of "[]" "sort_key fst d"]
  by (simp add: json_load_def json_dump_def distinct_sort_key_fst)


lemma update_json_KeyError:
  assumes "map_of (dict_update old_dict new_dict) ''json_name'' = None"
  shows "update_json new_dict old_dict w = (Inl (KeyError ''json_name''), dict_update old_dict new_dict, w)"
  using assms by (simp add: update_json_def dict_getitem_def Let_def)


lemma load_json_missing:
  "files w (joinpath subject_dir ''ASL/ASL.json'') = None \<Longrightarrow>
   load_json subject_dir w =
     (Inl (Exception (''File '' @ str_path (joinpath subject_dir ''ASL/ASL.json'') @
                      '' does not exist.Please run initial_processing() first.'')), w)"
  by (simp add: load_json_def Let_def)

lemma load_json_present:
  "files w (joinpath subject_dir ''ASL/ASL.json'') = Some c \<Longrightarrow>
   load_json subject_dir w = (json_load c, w)"
  by (simp add: load_json_def Let_def)






text \<open>
  Claim C6. When \<open>ASL/ASL.json\<close> under the subject directory does not exist, \<open>load_json\<close>
  raises an exception whose message names the file and ends with the instruction to run
  \<open>initial_processing()\<close> first, and leaves the files as they are. When the file holds
  a JSON object, \<open>load_json\<close> returns its members as a dict (the later of two members
  with one key), and for a file written by \<open>json_dump\<close> from a dict it returns the
  mapping of that dict.
\<close>

theorem load_json_missing_or_present:
  "(files w (joinpath subject_dir ''ASL/ASL.json'') = None \<longrightarrow>
      load_json subject_dir w =
        (Inl (Exception (''File '' @ str_path (joinpath subject_dir ''ASL/ASL.json'') @
                         '' does not exist.Please run initial_processing() first.'')), w)) \<and>
   (\<forall>members. files w (joinpath subject_dir ''ASL/ASL.json'') = Some (Json_object members) \<longrightarrow>
      load_json subject_dir w = (Inr (dict_update [] members), w) \<and>
      map_of (dict_update [] members) = map_of (rev members)) \<and>
   (\<forall>d. distinct (map fst d) \<and> files w (joinpath subject_dir ''ASL/ASL.json'') = Some (json_dump d) \<longrightarrow>
      (\<exists>m. load_json subject_dir w = (Inr m, w) \<and> map_of m = map_of d))"
proof (intro conjI allI impI)
  assume "files w (joinpath subject_dir ''ASL/ASL.json'') = None"
  then show "load_json subject_dir w =
        (Inl (Exception (''File '' @ str_path (joinpath subject_dir ''ASL/ASL.json'') @
                         '' does not exist.Please run initial_processing() first.'')), w)"
    by (rule load_json_missing)
next
  fix members
  assume "files w (joinpath subject_dir ''ASL/ASL.json'') = Some (Json_object members)"
  from load_json_present [OF this]
  show "load_json subject_dir w = (Inr (dict_update [] members), w)"
    by (simp add: json_load_def)
next
  fix members :: dict
  show "map_of (dict_update [] members) = map_of (rev members)"
    by (simp add: map_of_dict_update)
next
  fix d
  assume a: "distinct (map fst d) \<and> files w (joinpath subject_dir ''ASL/ASL.json'') = Some (json_dump d)"
  then have "load_json subject_dir w = (Inr (sort_key fst d), w)"
    using load_json_present [of w subject_dir "json_dump d"] by (simp add: json_load_dump)
  moreover from a have "map_of (sort_key fst d) = map_of d" by (simp add: map_of_sort_key_fst)
  ultimately show "\<exists>m. load_json subject_dir w = (Inr m, w) \<and> map_of m = map_of d" by blast
qed

theorem load_json_missing_or_present_witness:
  "files empty_world (joinpath (path_of_str ''/s'') ''ASL/ASL.json'') = None \<and>
   load_json (path_of_str ''/s'') empty_world =
     (Inl (Exception ''File /s/ASL/ASL.json does not exist.Please run initial_processing() first.''), empty_world) \<and>
   files world0 (joinpath (path_of_str ''/s'') ''ASL/ASL.json'') = Some (json_dump ledger0) \<and>
   (\<exists>m. load_json (path_of_str ''/s'') world0 = (Inr m, world0) \<and> map_of m = map_of ledger0)"
proof -
  have p: "joinpath (path_of_str ''/s'') ''ASL/ASL.json'' = Path ''/'' [''s'', ''ASL'', ''ASL.json'']"
    by (simp add: joinpath_def path_of_str_def root_of_def parse_parts_def)
  have n: "files empty_world (joinpath (path_of_str ''/s'') ''ASL/ASL.json'') = None"
    by (simp add: empty_world_def)
  have s: "str_path (Path ''/'' [''s'', ''ASL'', ''ASL.json'']) = ''/s/ASL/ASL.json''"
    by (simp add: str_path_def)
  have f: "files world0 (joinpath (path_of_str ''/s'') ''ASL/ASL.json'') = Some (json_dump ledger0)"
    unfolding p by (simp add: world0_def path_of_str_def root_of_def parse_parts_def)
  have wf: "distinct (map fst ledger0)" by (simp add: ledger0_def)
  note t = load_json_missing_or_present [of empty_world "path_of_str ''/s''"]
  note u = load_json_missing_or_present [of world0 "path_of_str ''/s''"]
  from t n have a: "load_json (path_of_str ''/s'') empty_world =
     (Inl (Exception ''File /s/ASL/ASL.json does not exist.Please run initial_processing() first.''), empty_world)"
    by (simp add: p s)
  from u wf f have b: "\<exists>m. load_json (path_of_str ''/s'') world0 = (Inr m, world0) \<and> map_of m = map_of ledger0"
    by blast
  from n a f b show ?thesis by (intro conjI)
qed




section \<open>Importing the registration matrix: helper lemmas\<close>

lemma from_flirt_file_Some:
  "omat st = Some m \<Longrightarrow>
   from_flirt_file from_flirt st = (from_flirt m, st\<lparr>events := events st @ [From_flirt (Some m)]\<rparr>)"
  by (simp add: from_flirt_file_def Let_def)

lemma generate_asl2struct_missing:
  "generate_asl2struct from_flirt round_5dp to_flirt None =
     (Inl OtherError, \<lparr>omat = None, events = [From_flirt None]\<rparr>)"
  by (simp add: generate_asl2struct_def from_flirt_file_def Let_def)

lemma generate_asl2struct_valid:
  "from_flirt m = Inr reg \<Longrightarrow>
   generate_asl2struct from_flirt round_5dp to_flirt (Some m) =
     (Inr (), \<lparr>omat = Some (to_flirt reg),
               events = [From_flirt (Some m), Final_savetxt (to_flirt reg)]\<rparr>)"
  by (simp add: generate_asl2struct_def from_flirt_file_def save_asl2struct_def Let_def)

lemma generate_asl2struct_other:
  "from_flirt m = Inl e \<Longrightarrow> e \<noteq> RuntimeError \<Longrightarrow>
   generate_asl2struct from_flirt round_5dp to_flirt (Some m) =
     (Inl e, \<lparr>omat = Some m, events = [From_flirt (Some m)]\<rparr>)"
  by (simp add: generate_asl2struct_def from_flirt_file_def Let_def)

lemma generate_asl2struct_retry_fails:
  "from_flirt m = Inl RuntimeError \<Longrightarrow> from_flirt (round_5dp m) = Inl e \<Longrightarrow>
   generate_asl2struct from_flirt round_5dp to_flirt (Some m) =
     (Inl e, \<lparr>omat = Some (round_5dp m),
              events = [From_flirt (Some m), Round_savetxt (round_5dp m),
                        From_flirt (Some (round_5dp m))]\<rparr>)"
  by (simp add: generate_asl2struct_def from_flirt_file_def Let_def)

lemma generate_asl2struct_retry_valid:
  "from_flirt m = Inl RuntimeError \<Longrightarrow> from_flirt (round_5dp m) = Inr reg \<Longrightarrow>
   generate_asl2struct from_flirt round_5dp to_flirt (Some m) =
     (Inr (), \<lparr>omat = Some (to_flirt reg),
               events = [From_flirt (Some m), Round_savetxt (round_5dp m),
                         From_flirt (Some (round_5dp m)), Final_savetxt (to_flirt reg)]\<rparr>)"
  by (simp add: generate_asl2struct_def from_flirt_file_def save_asl2struct_def Let_def)

lemma generate_asl2struct_bounds:
  "length (filter is_From_flirt (events (snd (generate_asl2struct from_flirt round_5dp to_flirt out)))) \<le> 2 \<and>
   length (filter is_Round_savetxt (events (snd (generate_asl2struct from_flirt round_5dp to_flirt out)))) \<le> 1"
proof (cases out)
  case None
  then show ?thesis
    by (simp add: generate_asl2struct_missing is_From_flirt_def is_Round_savetxt_def)
next
  case (Some m)
  show ?thesis
  proof (cases "from_flirt m")
    case (Inr reg)
    from generate_asl2struct_valid [where from_flirt = from_flirt and m = m and reg = reg and round_5dp = round_5dp and to_flirt = to_flirt] Inr Some show ?thesis
      by (simp add: is_From_flirt_def is_Round_savetxt_def)
  next
    case (Inl e)
    show ?thesis
    proof (cases "e = RuntimeError")
      case False
      from generate_asl2struct_other [where from_flirt = from_flirt and m = m and e = e and round_5dp = round_5dp and to_flirt = to_flirt] Inl False Some show ?thesis
        by (simp add: is_From_flirt_def is_Round_savetxt_def)
    next
      case True
      with Inl have f: "from_flirt m = Inl RuntimeError" by simp
      show ?thesis
      proof (cases "from_flirt (round_5dp m)")
        case (Inl e')
        from generate_asl2struct_retry_fails [where from_flirt = from_flirt and m = m and e = e' and round_5dp = round_5dp and to_flirt = to_flirt] f Inl Some show ?thesis
          by (simp add: is_From_flirt_def is_Round_savetxt_def)
      next
        case (Inr reg)
        from generate_asl2struct_retry_valid [where from_flirt = from_flirt and m = m and reg = reg and round_5dp = round_5dp and to_flirt = to_flirt] f Inr Some show ?thesis
          by (simp add: is_From_flirt_def is_Round_savetxt_def)
      qed
    qed
  qed
qed

text \<open>
  Claim C3. \<open>generate_asl2struct\<close> imports the matrix file at most twice and rounds it at
  most once. When the first import passes, nothing is rounded. When the first import
  raises \<open>RuntimeError\<close>, the file is rewritten rounded to five decimal places and
  imported once more: if that import raises, its error is the result and nothing
  further is rounded, imported or written; if it passes, the result is saved.
\<close>

theorem generate_asl2struct_one_retry:
  "length (filter is_From_flirt (events (snd (generate_asl2struct from_flirt round_5dp to_flirt out)))) \<le> 2 \<and>
   length (filter is_Round_savetxt (events (snd (generate_asl2struct from_flirt round_5dp to_flirt out)))) \<le> 1 \<and>
   (\<forall>m reg. out = Some m \<and> from_flirt m = Inr reg \<longrightarrow>
      generate_asl2struct from_flirt round_5dp to_flirt out =
        (Inr (), \<lparr>omat = Some (to_flirt reg),
                  events = [From_flirt (Some m), Final_savetxt (to_flirt reg)]\<rparr>)) \<and>
   (\<forall>m e. out = Some m \<and> from_flirt m = Inl RuntimeError \<and> from_flirt (round_5dp m) = Inl e \<longrightarrow>
      generate_asl2struct from_flirt round_5dp to_flirt out =
        (Inl e, \<lparr>omat = Some (round_5dp m),
                 events = [From_flirt (Some m), Round_savetxt (round_5dp m),
                           From_flirt (Some (round_5dp m))]\<rparr>)) \<and>
   (\<forall>m reg. out = Some m \<and> from_flirt m = Inl RuntimeError \<and> from_flirt (round_5dp m) = Inr reg \<longrightarrow>
      generate_asl2struct from_flirt round_5dp to_flirt out =
        (Inr (), \<lparr>omat = Some (to_flirt reg),
                  events = [From_flirt (Some m), Round_savetxt (round_5dp m),
                            From_flirt (Some (round_5dp m)), Final_savetxt (to_flirt reg)]\<rparr>))"
  using generate_asl2struct_bounds [of from_flirt round_5dp to_flirt out]
    generate_asl2struct_valid [where from_flirt = from_flirt and round_5dp = round_5dp and to_flirt = to_flirt]
    generate_asl2struct_retry_fails [where from_flirt = from_flirt and round_5dp = round_5dp and to_flirt = to_flirt]
    generate_asl2struct_retry_valid [where from_flirt = from_flirt and round_5dp = round_5dp and to_flirt = to_flirt]
  by (intro conjI allI impI) (elim conjE, simp)+

theorem generate_asl2struct_one_retry_witness:
  "example_from_flirt not_affine = Inl RuntimeError \<and>
   example_from_flirt (example_round_5dp not_affine) = Inl RuntimeError \<and>
   generate_asl2struct example_from_flirt example_round_5dp id (Some not_affine) =
     (Inl RuntimeError,
      \<lparr>omat = Some (example_round_5dp not_affine),
       events = [From_flirt (Some not_affine), Round_savetxt (example_round_5dp not_affine),
                 From_flirt (Some (example_round_5dp not_affine))]\<rparr>) \<and>
   example_from_flirt near_identity = Inl RuntimeError \<and>
   example_from_flirt (example_round_5dp near_identity) = Inr (example_round_5dp near_identity) \<and>
   generate_asl2struct example_from_flirt example_round_5dp id (Some near_identity) =
     (Inr (),
      \<lparr>omat = Some (example_round_5dp near_identity),
       events = [From_flirt (Some near_identity), Round_savetxt (example_round_5dp near_identity),
                 From_flirt (Some (example_round_5dp near_identity)),
                 Final_savetxt (example_round_5dp near_identity)]\<rparr>)"
proof -
  have a1: "example_from_flirt not_affine = Inl RuntimeError"
    by (simp add: example_from_flirt_def not_affine_def)
  have a2: "example_from_flirt (example_round_5dp not_affine) = Inl RuntimeError"
    by (simp add: example_from_flirt_def example_round_5dp_def not_affine_def)
  have b1: "example_from_flirt near_identity = Inl RuntimeError"
    by (simp add: example_from_flirt_def near_identity_def)
  have b2: "example_from_flirt (example_round_5dp near_identity) = Inr (example_round_5dp near_identity)"
    by (simp add: example_from_flirt_def example_round_5dp_def near_identity_def)
  note t1 = generate_asl2struct_one_retry [of example_from_flirt example_round_5dp id "Some not_affine"]
  note t2 = generate_asl2struct_one_retry [of example_from_flirt example_round_5dp id "Some near_identity"]
  from t1 a1 a2 have r1: "generate_asl2struct example_from_flirt example_round_5dp id (Some not_affine) =
     (Inl RuntimeError,
      \<lparr>omat = Some (example_round_5dp not_affine),
       events = [From_flirt (Some not_affine), Round_savetxt (example_round_5dp not_affine),
                 From_flirt (Some (example_round_5dp not_affine))]\<rparr>)"
    by blast
  from t2 b1 b2 have r2: "generate_asl2struct example_from_flirt example_round_5dp id (Some near_identity) =
     (Inr (),
      \<lparr>omat = Some (id (example_round_5dp near_identity)),
       events = [From_flirt (Some near_identity), Round_savetxt (example_round_5dp near_identity),
                 From_flirt (Some (example_round_5dp near_identity)),
                 Final_savetxt (id (example_round_5dp near_identity))]\<rparr>)"
    by blast
  from a1 a2 r1 b1 b2 r2 show ?thesis by simp
qed

section \<open>Perfusion estimation: helper lemmas\<close>

lemma oxford_names_None:
  "oxford_names_of sa None =
     \<lparr>oxford_dir = joinpath sa ''TIsNone/OxfordASL'',
      pvgm_name = joinpath sa ''PVEsNone/pve_GM.nii.gz'',
      pvwm_name = joinpath sa ''PVEsNone/pve_WM.nii.gz'',
      calib_name = joinpath sa ''Calib/Calib0/DistCorrNone/calib0_dcorr.nii.gz'',
      brain_mask = joinpath sa ''regNone/ASL_grid_T1w_acpc_dc_restore_brain_mask.nii.gz''\<rparr>"
  by (simp add: oxford_names_of_def format_ext_def)

lemma oxford_names_nobc:
  "oxford_names_of sa (Some ''_nobc'') =
     \<lparr>oxford_dir = joinpath sa ''TIs_nobc/OxfordASL'',
      pvgm_name = joinpath sa ''PVEs_nobc/pve_GM.nii.gz'',
      pvwm_name = joinpath sa ''PVEs_nobc/pve_WM.nii.gz'',
      calib_name = joinpath sa ''Calib/Calib0/DistCorr_nobc/calib0_dcorr.nii.gz'',
      brain_mask = joinpath sa ''reg_nobc/ASL_grid_T1w_acpc_dc_restore_brain_mask.nii.gz''\<rparr>"
  by (simp add: oxford_names_of_def format_ext_def)

lemma oxford_parts:
  "joinpath sa ''TIsNone/OxfordASL'' = Path (root sa) (parts sa @ [''TIsNone'', ''OxfordASL''])"
  "joinpath sa ''PVEsNone/pve_GM.nii.gz'' = Path (root sa) (parts sa @ [''PVEsNone'', ''pve_GM.nii.gz''])"
  "joinpath sa ''PVEsNone/pve_WM.nii.gz'' = Path (root sa) (parts sa @ [''PVEsNone'', ''pve_WM.nii.gz''])"
  "joinpath sa ''Calib/Calib0/DistCorrNone/calib0_dcorr.nii.gz''
     = Path (root sa) (parts sa @ [''Calib'', ''Calib0'', ''DistCorrNone'', ''calib0_dcorr.nii.gz''])"
  "joinpath sa ''regNone/ASL_grid_T1w_acpc_dc_restore_brain_mask.nii.gz''
     = Path (root sa) (parts sa @ [''regNone'', ''ASL_grid_T1w_acpc_dc_restore_brain_mask.nii.gz''])"
  "joinpath sa ''TIs/OxfordASL'' = Path (root sa) (parts sa @ [''TIs'', ''OxfordASL''])"
  "joinpath sa ''PVEs/pve_GM.nii.gz'' = Path (root sa) (parts sa @ [''PVEs'', ''pve_GM.nii.gz''])"
  "joinpath sa ''PVEs/pve_WM.nii.gz'' = Path (root sa) (parts sa @ [''PVEs'', ''pve_WM.nii.gz''])"
  "joinpath sa ''Calib/Calib0/DistCorr/calib0_dcorr.nii.gz''
     = Path (root sa) (parts sa @ [''Calib'', ''Calib0'', ''DistCorr'', ''calib0_dcorr.nii.gz''])"
  "joinpath sa ''reg/ASL_grid_T1w_acpc_dc_restore_brain_mask.nii.gz''
     = Path (root sa) (parts sa @ [''reg'', ''ASL_grid_T1w_acpc_dc_restore_brain_mask.nii.gz''])"
  by (simp_all add: joinpath_def root_of_def parse_parts_def)

lemma oxford_cmd_ok:
  assumes "map_of json_dict ''beta_perf'' = Some beta_perf"
    and "map_of json_dict ''T1w_acpc'' = Some t1w_acpc"
    and "map_of json_dict ''T1w_acpc_brain'' = Some t1w_acpc_brain"
  shows "oxford_cmd json_dict names =
          Inr [''oxford_asl'',
               ''-i '' @ beta_perf,
               ''-o '' @ str_path (oxford_dir names),
               ''--casl'',
               ''--ibf=tis'',
               ''--iaf=diff'',
               ''--tis=1.7,2.2,2.7,3.2,3.7'',
               ''--rpts=6,6,6,10,15'',
               ''--fixbolus'',
               ''--bolus=1.5'',
               ''--pvcorr'',
               ''-c '' @ str_path (calib_name names),
               ''--cmethod=single'',
               ''-m '' @ str_path (brain_mask names),
               ''--pvgm='' @ str_path (pvgm_name names),
               ''--pvwm='' @ str_path (pvwm_name names),
               ''--te=19'',
               ''--debug'',
               ''--spatial=off'',
               ''--slicedt=0.059'',
               ''-s '' @ t1w_acpc,
               ''--sbrain='' @ t1w_acpc_brain,
               ''--sliceband=10'']"
  using assms by (simp add: oxford_cmd_def dict_getitem_def)

lemma update_json_calls: "calls (snd (snd (update_json new_dict old_dict w))) = calls w"
  by (simp add: update_json_def Let_def split: sum.splits)

lemma run_oxford_asl_calls:
  assumes l: "load_json subject_dir w = (Inr json_dict, w)"
    and sa: "map_of json_dict ''structasl'' = Some structasl"
    and c: "oxford_cmd json_dict (oxford_names_of (path_of_str structasl) (nobc_ext nobc)) = Inr cmd"
  shows "\<exists>rc. calls (snd (run_oxford_asl t subject_dir nobc w)) = calls w @ [(Shell (join_str '' '' cmd), rc)]"
proof -
  let ?names = "oxford_names_of (path_of_str structasl) (nobc_ext nobc)"
  obtain rc fs where t: "t w (Shell (join_str '' '' cmd)) = (rc, fs)"
    by (cases "t w (Shell (join_str '' '' cmd))")
  let ?w1 = "\<lparr>files = fs, calls = calls w @ [(Shell (join_str '' '' cmd), rc)]\<rparr>"
  have s: "subprocess_run t (Shell (join_str '' '' cmd)) False w = (Inr rc, ?w1)"
    using t by (simp add: subprocess_run_def)
  obtain r d w2 where u: "update_json [(''oxford_asl'', str_path (oxford_dir ?names))] json_dict ?w1 = (r, d, w2)"
    by (cases "update_json [(''oxford_asl'', str_path (oxford_dir ?names))] json_dict ?w1") auto
  have cw: "calls w2 = calls ?w1"
    using update_json_calls [of "[(''oxford_asl'', str_path (oxford_dir ?names))]" json_dict ?w1] u
    by simp
  have "run_oxford_asl t subject_dir nobc w = (r, w2)"
    using l sa c s u by (simp add: run_oxford_asl_def dict_getitem_def Let_def)
  with cw show ?thesis by simp
qed

text \<open>
  Claim C10. With \<open>nobc=False\<close> the suffix is \<open>None\<close>, which the f-strings render as
  the text \<open>None\<close>: the five derived paths are \<open>TIsNone/OxfordASL\<close>,
  \<open>PVEsNone/pve_GM.nii.gz\<close>, \<open>PVEsNone/pve_WM.nii.gz\<close>,
  \<open>Calib/Calib0/DistCorrNone/calib0_dcorr.nii.gz\<close> and
  \<open>regNone/ASL_grid_T1w_acpc_dc_restore_brain_mask.nii.gz\<close> under the \<open>structasl\<close>
  directory, none of them the unsuffixed name, and they are the paths of the command
  that \<open>run_oxford_asl\<close> runs. With \<open>nobc=True\<close> the names carry \<open>_nobc\<close>.
\<close>

theorem run_oxford_asl_None_suffix:
  "nobc_ext False = None \<and>
   format_ext (nobc_ext False) = ''None'' \<and>
   format_ext (nobc_ext True) = ''_nobc'' \<and>
   oxford_names_of sa (nobc_ext False) =
     \<lparr>oxford_dir = joinpath sa ''TIsNone/OxfordASL'',
      pvgm_name = joinpath sa ''PVEsNone/pve_GM.nii.gz'',
      pvwm_name = joinpath sa ''PVEsNone/pve_WM.nii.gz'',
      calib_name = joinpath sa ''Calib/Calib0/DistCorrNone/calib0_dcorr.nii.gz'',
      brain_mask = joinpath sa ''regNone/ASL_grid_T1w_acpc_dc_restore_brain_mask.nii.gz''\<rparr> \<and>
   oxford_names_of sa (nobc_ext True) =
     \<lparr>oxford_dir = joinpath sa ''TIs_nobc/OxfordASL'',
      pvgm_name = joinpath sa ''PVEs_nobc/pve_GM.nii.gz'',
      pvwm_name = joinpath sa ''PVEs_nobc/pve_WM.nii.gz'',
      calib_name = joinpath sa ''Calib/Calib0/DistCorr_nobc/calib0_dcorr.nii.gz'',
      brain_mask = joinpath sa ''reg_nobc/ASL_grid_T1w_acpc_dc_restore_brain_mask.nii.gz''\<rparr> \<and>
   oxford_dir (oxford_names_of sa (nobc_ext False)) \<noteq> joinpath sa ''TIs/OxfordASL'' \<and>
   pvgm_name (oxford_names_of sa (nobc_ext False)) \<noteq> joinpath sa ''PVEs/pve_GM.nii.gz'' \<and>
   pvwm_name (oxford_names_of sa (nobc_ext False)) \<noteq> joinpath sa ''PVEs/pve_WM.nii.gz'' \<and>
   calib_name (oxford_names_of sa (nobc_ext False)) \<noteq> joinpath sa ''Calib/Calib0/DistCorr/calib0_dcorr.nii.gz'' \<and>
   brain_mask (oxford_names_of sa (nobc_ext False)) \<noteq> joinpath sa ''reg/ASL_grid_T1w_acpc_dc_restore_brain_mask.nii.gz'' \<and>
   (\<forall>t subject_dir w json_dict structasl beta_perf t1w_acpc t1w_acpc_brain.
      load_json subject_dir w = (Inr json_dict, w) \<and>
      map_of json_dict ''structasl'' = Some structasl \<and>
      map_of json_dict ''beta_perf'' = Some beta_perf \<and>
      map_of json_dict ''T1w_acpc'' = Some t1w_acpc \<and>
      map_of json_dict ''T1w_acpc_brain'' = Some t1w_acpc_brain \<longrightarrow>
      (\<exists>rc. calls (snd (run_oxford_asl t subject_dir False w)) = calls w @
         [(Shell (join_str '' ''
            [''oxford_asl'',
             ''-i '' @ beta_perf,
             ''-o '' @ str_path (joinpath (path_of_str structasl) ''TIsNone/OxfordASL''),
             ''--casl'',
             ''--ibf=tis'',
             ''--iaf=diff'',
             ''--tis=1.7,2.2,2.7,3.2,3.7'',
             ''--rpts=6,6,6,10,15'',
             ''--fixbolus'',
             ''--bolus=1.5'',
             ''--pvcorr'',
             ''-c '' @ str_path (joinpath (path_of_str structasl) ''Calib/Calib0/DistCorrNone/calib0_dcorr.nii.gz''),
             ''--cmethod=single'',
             ''-m '' @ str_path (joinpath (path_of_str structasl) ''regNone/ASL_grid_T1w_acpc_dc_restore_brain_mask.nii.gz''),
             ''--pvgm='' @ str_path (joinpath (path_of_str structasl) ''PVEsNone/pve_GM.nii.gz''),
             ''--pvwm='' @ str_path (joinpath (path_of_str structasl) ''PVEsNone/pve_WM.nii.gz''),
             ''--te=19'',
             ''--debug'',
             ''--spatial=off'',
             ''--slicedt=0.059'',
             ''-s '' @ t1w_acpc,
             ''--sbrain='' @ t1w_acpc_brain,
             ''--sliceband=10'']), rc)]))"
proof -
  have e: "nobc_ext False = None" "nobc_ext True = Some ''_nobc''"
    by (simp_all add: nobc_ext_def)
  have f: "format_ext (nobc_ext False) = ''None''" "format_ext (nobc_ext True) = ''_nobc''"
    by (simp_all add: e format_ext_def)
  have n: "oxford_names_of sa (nobc_ext False) =
     \<lparr>oxford_dir = joinpath sa ''TIsNone/OxfordASL'',
      pvgm_name = joinpath sa ''PVEsNone/pve_GM.nii.gz'',
      pvwm_name = joinpath sa ''PVEsNone/pve_WM.nii.gz'',
      calib_name = joinpath sa ''Calib/Calib0/DistCorrNone/calib0_dcorr.nii.gz'',
      brain_mask = joinpath sa ''regNone/ASL_grid_T1w_acpc_dc_restore_brain_mask.nii.gz''\<rparr>"
    unfolding e by (rule oxford_names_None)
  have b: "oxford_names_of sa (nobc_ext True) =
     \<lparr>oxford_dir = joinpath sa ''TIs_nobc/OxfordASL'',
      pvgm_name = joinpath sa ''PVEs_nobc/pve_GM.nii.gz'',
      pvwm_name = joinpath sa ''PVEs_nobc/pve_WM.nii.gz'',
      calib_name = joinpath sa ''Calib/Calib0/DistCorr_nobc/calib0_dcorr.nii.gz'',
      brain_mask = joinpath sa ''reg_nobc/ASL_grid_T1w_acpc_dc_restore_brain_mask.nii.gz''\<rparr>"
    unfolding e by (rule oxford_names_nobc)
  have d1: "oxford_dir (oxford_names_of sa (nobc_ext False)) \<noteq> joinpath sa ''TIs/OxfordASL''"
    unfolding n by (simp add: oxford_parts)
  have d2: "pvgm_name (oxford_names_of sa (nobc_ext False)) \<noteq> joinpath sa ''PVEs/pve_GM.nii.gz''"
    unfolding n by (simp add: oxford_parts)
  have d3: "pvwm_name (oxford_names_of sa (nobc_ext False)) \<noteq> joinpath sa ''PVEs/pve_WM.nii.gz''"
    unfolding n by (simp add: oxford_parts)
  have d4: "calib_name (oxford_names_of sa (nobc_ext False)) \<noteq> joinpath sa ''Calib/Calib0/DistCorr/calib0_dcorr.nii.gz''"
    unfolding n by (simp add: oxford_parts)
  have d5: "brain_mask (oxford_names_of sa (nobc_ext False)) \<noteq> joinpath sa ''reg/ASL_grid_T1w_acpc_dc_restore_brain_mask.nii.gz''"
    unfolding n by (simp add: oxford_parts)
  have run: "\<forall>t subject_dir w json_dict structasl beta_perf t1w_acpc t1w_acpc_brain.
      load_json subject_dir w = (Inr json_dict, w) \<and>
      map_of json_dict ''structasl'' = Some structasl \<and>
      map_of json_dict ''beta_perf'' = Some beta_perf \<and>
      map_of json_dict ''T1w_acpc'' = Some t1w_acpc \<and>
      map_of json_dict ''T1w_acpc_brain'' = Some t1w_acpc_brain \<longrightarrow>
      (\<exists>rc. calls (snd (run_oxford_asl t subject_dir False w)) = calls w @
         [(Shell (join_str '' ''
            [''oxford_asl'',
             ''-i '' @ beta_perf,
             ''-o '' @ str_path (joinpath (path_of_str structasl) ''TIsNone/OxfordASL''),
             ''--casl'',
             ''--ibf=tis'',
             ''--iaf=diff'',
             ''--tis=1.7,2.2,2.7,3.2,3.7'',
             ''--rpts=6,6,6,10,15'',
             ''--fixbolus'',
             ''--bolus=1.5'',
             ''--pvcorr'',
             ''-c '' @ str_path (joinpath (path_of_str structasl) ''Calib/Calib0/DistCorrNone/calib0_dcorr.nii.gz''),
             ''--cmethod=single'',
             ''-m '' @ str_path (joinpath (path_of_str structasl) ''regNone/ASL_grid_T1w_acpc_dc_restore_brain_mask.nii.gz''),
             ''--pvgm='' @ str_path (joinpath (path_of_str structasl) ''PVEsNone/pve_GM.nii.gz''),
             ''--pvwm='' @ str_path (joinpath (path_of_str structasl) ''PVEsNone/pve_WM.nii.gz''),
             ''--te=19'',
             ''--debug'',
             ''--spatial=off'',
             ''--slicedt=0.059'',
             ''-s '' @ t1w_acpc,
             ''--sbrain='' @ t1w_acpc_brain,
             ''--sliceband=10'']), rc)])"
  proof (intro allI impI, elim conjE)
    fix t subject_dir w json_dict structasl beta_perf t1w_acpc t1w_acpc_brain
    assume l: "load_json subject_dir w = (Inr json_dict, w)"
      and s: "map_of json_dict ''structasl'' = Some structasl"
      and k1: "map_of json_dict ''beta_perf'' = Some beta_perf"
      and k2: "map_of json_dict ''T1w_acpc'' = Some t1w_acpc"
      and k3: "map_of json_dict ''T1w_acpc_brain'' = Some t1w_acpc_brain"
    note c = oxford_cmd_ok [OF k1 k2 k3, of "oxford_names_of (path_of_str structasl) (nobc_ext False)"]
    from run_oxford_asl_calls [OF l s c, of t]
    show "\<exists>rc. calls (snd (run_oxford_asl t subject_dir False w)) = calls w @
         [(Shell (join_str '' ''
            [''oxford_asl'',
             ''-i '' @ beta_perf,
             ''-o '' @ str_path (joinpath (path_of_str structasl) ''TIsNone/OxfordASL''),
             ''--casl'',
             ''--ibf=tis'',
             ''--iaf=diff'',
             ''--tis=1.7,2.2,2.7,3.2,3.7'',
             ''--rpts=6,6,6,10,15'',
             ''--fixbolus'',
             ''--bolus=1.5'',
             ''--pvcorr'',
             ''-c '' @ str_path (joinpath (path_of_str structasl) ''Calib/Calib0/DistCorrNone/calib0_dcorr.nii.gz''),
             ''--cmethod=single'',
             ''-m '' @ str_path (joinpath (path_of_str structasl) ''regNone/ASL_grid_T1w_acpc_dc_restore_brain_mask.nii.gz''),
             ''--pvgm='' @ str_path (joinpath (path_of_str structasl) ''PVEsNone/pve_GM.nii.gz''),
             ''--pvwm='' @ str_path (joinpath (path_of_str structasl) ''PVEsNone/pve_WM.nii.gz''),
             ''--te=19'',
             ''--debug'',
             ''--spatial=off'',
             ''--slicedt=0.059'',
             ''-s '' @ t1w_acpc,
             ''--sbrain='' @ t1w_acpc_brain,
             ''--sliceband=10'']), rc)]"
      by (simp add: e oxford_names_None)
  qed
  from e(1) f n b d1 d2 d3 d4 d5 run show ?thesis by (intro conjI)
qed

theorem run_oxford_asl_None_suffix_witness:
  "\<exists>rc. calls (snd (run_oxford_asl (fails_at 7) (path_of_str ''/s'') False world1)) =
     [(Shell (''oxford_asl -i /s/T1w/ASL/TIs/Betas/beta_perf.nii.gz -o /s/T1w/ASL/TIsNone/OxfordASL'' @
              '' --casl --ibf=tis --iaf=diff --tis=1.7,2.2,2.7,3.2,3.7 --rpts=6,6,6,10,15'' @
              '' --fixbolus --bolus=1.5 --pvcorr'' @
              '' -c /s/T1w/ASL/Calib/Calib0/DistCorrNone/calib0_dcorr.nii.gz --cmethod=single'' @
              '' -m /s/T1w/ASL/regNone/ASL_grid_T1w_acpc_dc_restore_brain_mask.nii.gz'' @
              '' --pvgm=/s/T1w/ASL/PVEsNone/pve_GM.nii.gz --pvwm=/s/T1w/ASL/PVEsNone/pve_WM.nii.gz'' @
              '' --te=19 --debug --spatial=off --slicedt=0.059'' @
              '' -s /s/T1w/T1w_acpc_dc_restore.nii.gz'' @
              '' --sbrain=/s/T1w/T1w_acpc_dc_restore_brain.nii.gz --sliceband=10''), rc)]"
proof -
  have p: "joinpath (path_of_str ''/s'') ''ASL/ASL.json'' = Path ''/'' [''s'', ''ASL'', ''ASL.json'']"
    by (simp add: joinpath_def path_of_str_def root_of_def parse_parts_def)
  have f: "files world1 (joinpath (path_of_str ''/s'') ''ASL/ASL.json'') = Some (json_dump ledger1)"
    unfolding p by (simp add: world1_def path_of_str_def root_of_def parse_parts_def)
  have wf: "distinct (map fst ledger1)" by (simp add: ledger1_def)
  have srt: "sort_key fst ledger1 = ledger1" by (simp add: ledger1_def)
  have l: "load_json (path_of_str ''/s'') world1 = (Inr ledger1, world1)"
    using load_json_present [OF f] json_load_dump [OF wf] srt by simp
  have k: "map_of ledger1 ''structasl'' = Some ''/s/T1w/ASL''"
    "map_of ledger1 ''beta_perf'' = Some ''/s/T1w/ASL/TIs/Betas/beta_perf.nii.gz''"
    "map_of ledger1 ''T1w_acpc'' = Some ''/s/T1w/T1w_acpc_dc_restore.nii.gz''"
    "map_of ledger1 ''T1w_acpc_brain'' = Some ''/s/T1w/T1w_acpc_dc_restore_brain.nii.gz''"
    by (simp_all add: ledger1_def)
  have sa: "path_of_str ''/s/T1w/ASL'' = Path ''/'' [''s'', ''T1w'', ''ASL'']"
    by (simp add: path_of_str_def root_of_def parse_parts_def)
  have c: "calls world1 = []" by (simp add: world1_def)
  from run_oxford_asl_None_suffix [of "path_of_str ''/s''"] l k
  have "\<exists>rc. calls (snd (run_oxford_asl (fails_at 7) (path_of_str ''/s'') False world1)) = calls world1 @
         [(Shell (join_str '' ''
            [''oxford_asl'',
             ''-i '' @ ''/s/T1w/ASL/TIs/Betas/beta_perf.nii.gz'',
             ''-o '' @ str_path (joinpath (path_of_str ''/s/T1w/ASL'') ''TIsNone/OxfordASL''),
             ''--casl'',
             ''--ibf=tis'',
             ''--iaf=diff'',
             ''--tis=1.7,2.2,2.7,3.2,3.7'',
             ''--rpts=6,6,6,10,15'',
             ''--fixbolus'',
             ''--bolus=1.5'',
             ''--pvcorr'',
             ''-c '' @ str_path (joinpath (path_of_str ''/s/T1w/ASL'') ''Calib/Calib0/DistCorrNone/calib0_dcorr.nii.gz''),
             ''--cmethod=single'',
             ''-m '' @ str_path (joinpath (path_of_str ''/s/T1w/ASL'') ''regNone/ASL_grid_T1w_acpc_dc_restore_brain_mask.nii.gz''),
             ''--pvgm='' @ str_path (joinpath (path_of_str ''/s/T1w/ASL'') ''PVEsNone/pve_GM.nii.gz''),
             ''--pvwm='' @ str_path (joinpath (path_of_str ''/s/T1w/ASL'') ''PVEsNone/pve_WM.nii.gz''),
             ''--te=19'',
             ''--debug'',
             ''--spatial=off'',
             ''--slicedt=0.059'',
             ''-s '' @ ''/s/T1w/T1w_acpc_dc_restore.nii.gz'',
             ''--sbrain='' @ ''/s/T1w/T1w_acpc_dc_restore_brain.nii.gz'',
             ''--sliceband=10'']), rc)]"
    by blast
  then show ?thesis
    unfolding sa c by (simp add: oxford_parts str_path_def)
qed

section \<open>Re-entrancy of the stages: helper lemmas\<close>






















end
